theory Spec2Isabelle
  imports Main "HOL-Library.Word"
begin

unbundle bit_operations_syntax

section \<open>The abbreviated TLS handshake of cfsslscan (scan/crypto/tls/cfsslscan_handshake.go)\<close>

text \<open>
  The file under verification holds three methods of \<^verbatim>\<open>*Conn\<close>: \<^verbatim>\<open>SayHello\<close>,
  its backend \<^verbatim>\<open>sayHello\<close> and \<^verbatim>\<open>exchangeKeys\<close>. Everything they call (the record
  layer, the message codec, the configuration accessors, the cipher-suite table) lives in
  other files of package \<^verbatim>\<open>tls\<close>; those parts appear here as explicit state (the
  connection), as parameters (the package environment) or as constants of the protocol.
\<close>

subsection \<open>Machine integers\<close>

type_synonym uint8 = "8 word"
type_synonym uint16 = "16 word"
type_synonym CurveID = "16 word"
type_synonym SignatureScheme = "16 word"
type_synonym recordType = "8 word"

subsection \<open>Protocol constants of package tls\<close>

text \<open>
  Modelled from the spec: the constants below are declared in other files of the package.
  \<open>VersionTLS12\<close> is the spec's historical ceiling (TLS 1.2); the others are the fixed
  compression method "none", the uncompressed point format, the handshake record type and
  the ServerKeyExchange message type. The values are the ones of the TLS 1.2 wire format;
  no theorem below depends on them.
\<close>

definition VersionTLS12 :: uint16 where
  "VersionTLS12 = 0x0303"

definition compressionNone :: uint8 where
  "compressionNone = 0"

definition pointFormatUncompressed :: uint8 where
  "pointFormatUncompressed = 0"

definition recordTypeHandshake :: recordType where
  "recordTypeHandshake = 22"

definition typeServerKeyExchange :: uint8 where
  "typeServerKeyExchange = 12"

subsection \<open>Messages\<close>

text \<open>Only the fields that the three methods read or write are kept.\<close>

record clientHelloMsg =
  vers :: uint16
  compressionMethods :: "uint8 list"
  random :: "uint8 list"
  ocspStapling :: bool
  serverName :: string
  supportedCurves :: "CurveID list"
  supportedPoints :: "uint8 list"
  secureRenegotiationSupported :: bool
  cipherSuites :: "uint16 list"
  supportedSignatureAlgorithms :: "SignatureScheme list"

record serverHelloMsg =
  vers :: uint16
  cipherSuite :: uint16
  ocspStapling :: bool

record certificateMsg =
  certificates :: "uint8 list list"

record certificateStatusMsg =
  response :: "uint8 list"

record serverKeyExchangeMsg =
  raw :: "uint8 list"
  key :: "uint8 list"

text \<open>
  \<^verbatim>\<open>readHandshake\<close> returns an \<^verbatim>\<open>interface{}\<close> holding a pointer to one of the
  package's message structs. The four kinds that the probe tells apart are constructors of
  their own; every other handshake message (ServerHelloDone, Finished, ...) is
  \<open>OtherHandshake\<close> with its type byte and body.
\<close>

datatype handshakeMsg =
    ServerHello serverHelloMsg
  | Certificate certificateMsg
  | CertificateStatus certificateStatusMsg
  | ServerKeyExchange serverKeyExchangeMsg
  | OtherHandshake uint8 "uint8 list"

subsection \<open>Errors\<close>

datatype msgType =
  T_serverHelloMsg | T_certificateMsg | T_certificateStatusMsg | T_serverKeyExchangeMsg

text \<open>
  The two arguments of \<^verbatim>\<open>unexpectedMessageError(wanted, got interface{})\<close> as the
  three methods pass them: a nil pointer of a message type (the result of a failed type
  assertion), a message, the slice of candidate versions, or a string.
\<close>

datatype iface =
    NilPtr msgType
  | Msg handshakeMsg
  | Versions "uint16 list"
  | Text string

text \<open>What the transport reports when a read or a write fails.\<close>

datatype transportFault = EOF | Timeout | Closed | IOFault string

text \<open>
  Modelled from the spec: \<^verbatim>\<open>unexpectedMessageError\<close> is defined in another file of the
  package; the error it builds carries the expected and the actual message identity, here
  its two arguments as they are. A failure of the transport is a \<open>TransportError\<close>.
\<close>

datatype error =
    TransportError transportFault
  | UnexpectedMessageError (wanted: iface) (got: iface)

definition unexpectedMessageError :: "iface \<Rightarrow> iface \<Rightarrow> error" where
  "unexpectedMessageError w g = UnexpectedMessageError w g"

subsection \<open>Configuration, package environment and connection\<close>

text \<open>
  The results of the accessors \<^verbatim>\<open>c.config.supportedVersions()\<close>,
  \<^verbatim>\<open>c.config.curvePreferences()\<close>, \<^verbatim>\<open>c.config.cipherSuites()\<close> and the field
  \<^verbatim>\<open>c.config.ServerName\<close>: the spec's NegotiationRequest.
\<close>

record Config =
  supportedVersions :: "uint16 list"
  ServerName :: string
  curvePreferences :: "CurveID list"
  cipherSuites :: "uint16 list"

record SignatureAndHash =
  Hash :: uint8
  Signature :: uint8

record CipherSuite =
  EllipticCurve :: bool

text \<open>
  The parts of the package that the file uses and does not define: the table
  \<^verbatim>\<open>CFCipherSuites\<close> (a Go map from suite id to its description), the codec's
  \<^verbatim>\<open>marshal\<close> of a ClientHello and the conversion \<^verbatim>\<open>internal\<close> of a
  signature/hash pair. They are parameters of the model.
\<close>

record pkg =
  CFCipherSuites :: "uint16 \<rightharpoonup> CipherSuite"
  marshal :: "clientHelloMsg \<Rightarrow> uint8 list"
  internal :: "SignatureAndHash \<Rightarrow> SignatureScheme"

text \<open>Indexing a Go map with a missing key gives the zero value of the element type.\<close>

definition lookupCipherSuite :: "pkg \<Rightarrow> uint16 \<Rightarrow> CipherSuite" where
  "lookupCipherSuite p k =
     (case CFCipherSuites p k of None \<Rightarrow> \<lparr>EllipticCurve = False\<rparr> | Some cs \<Rightarrow> cs)"

datatype ioEvent =
    Wrote recordType "uint8 list" "transportFault option"
  | ReadAttempt "transportFault + handshakeMsg"

text \<open>
  The connection as the probe sees it: its configuration, what the successive calls of
  \<^verbatim>\<open>readHandshake\<close> will deliver (a message or a fault; an exhausted list is a peer
  that closed the connection), how the transport answers a write, and the log of the
  I/O performed so far.
\<close>

record Conn =
  config :: Config
  incoming :: "(transportFault + handshakeMsg) list"
  writeFault :: "transportFault option"
  trace :: "ioEvent list"

text \<open>
  \<^verbatim>\<open>writeRecord\<close> returns a byte count and an error in package tls; the count is left
  out, since no caller in the file looks at it.
\<close>

definition writeRecord :: "Conn \<Rightarrow> recordType \<Rightarrow> uint8 list \<Rightarrow> Conn \<times> error option" where
  "writeRecord c typ data =
     (c\<lparr>trace := trace c @ [Wrote typ data (writeFault c)]\<rparr>,
      map_option TransportError (writeFault c))"

definition readHandshake :: "Conn \<Rightarrow> Conn \<times> (error + handshakeMsg)" where
  "readHandshake c =
     (case incoming c of
        [] \<Rightarrow> (c\<lparr>trace := trace c @ [ReadAttempt (Inl EOF)]\<rparr>, Inl (TransportError EOF))
      | r # rs \<Rightarrow>
          (c\<lparr>incoming := rs, trace := trace c @ [ReadAttempt r]\<rparr>,
           case r of Inl f \<Rightarrow> Inl (TransportError f) | Inr m \<Rightarrow> Inr m))"

subsection \<open>The named results of SayHello\<close>

record ProbeReturn =
  cipherID :: uint16
  curveType :: uint16
  curveID :: CurveID
  version :: uint16
  certs :: "uint8 list list"
  err :: "error option"

text \<open>A call either returns its results or panics (an index out of range).\<close>

datatype outcome = Returned ProbeReturn | Panicked string

definition zeroReturn :: ProbeReturn where
  "zeroReturn = \<lparr>cipherID = 0, curveType = 0, curveID = 0, version = 0, certs = [], err = None\<rparr>"

subsection \<open>sayHello and exchangeKeys\<close>

text \<open>
  \<^verbatim>\<open>sayHello\<close> (lines 97-108) calls \<^verbatim>\<open>writeRecord\<close> as a statement: both of its
  results, the error included, are dropped. Then it reads one message and asserts that it
  is a ServerHello; on a failed assertion \<^verbatim>\<open>serverHello\<close> is the nil pointer.
\<close>

definition sayHello :: "pkg \<Rightarrow> Conn \<Rightarrow> clientHelloMsg \<Rightarrow> Conn \<times> (error + serverHelloMsg)" where
  "sayHello p c hello =
     (let (c, _) = writeRecord c recordTypeHandshake (marshal p hello);
          (c, r) = readHandshake c
      in case r of
           Inl e \<Rightarrow> (c, Inl e)
         | Inr msg \<Rightarrow>
             (case msg of
                ServerHello serverHello \<Rightarrow> (c, Inr serverHello)
              | _ \<Rightarrow> (c, Inl (unexpectedMessageError (NilPtr T_serverHelloMsg) (Msg msg)))))"

text \<open>\<^verbatim>\<open>exchangeKeys\<close> (lines 112-122).\<close>

definition exchangeKeys :: "Conn \<Rightarrow> Conn \<times> (error + serverKeyExchangeMsg)" where
  "exchangeKeys c =
     (let (c, r) = readHandshake c
      in case r of
           Inl e \<Rightarrow> (c, Inl e)
         | Inr msg \<Rightarrow>
             (case msg of
                ServerKeyExchange serverKeyExchange \<Rightarrow> (c, Inr serverKeyExchange)
              | _ \<Rightarrow> (c, Inl (unexpectedMessageError (NilPtr T_serverKeyExchangeMsg) (Msg msg)))))"

subsection \<open>SayHello\<close>

text \<open>
  Lines 18-37: the ClientHello. The version is the first candidate, capped at
  \<open>VersionTLS12\<close>; \<^verbatim>\<open>make([]byte, 32)\<close> is a slice of 32 zero bytes, and no later
  statement of the file writes to it.
\<close>

definition clientHello :: "pkg \<Rightarrow> Config \<Rightarrow> SignatureAndHash list \<Rightarrow> uint16 \<Rightarrow> clientHelloMsg" where
  "clientHello p cfg newSigAls v0 =
     (let supportedSignatureAlgorithms = map (internal p) newSigAls;
          clientHelloVersion = v0;
          clientHelloVersion =
            (if clientHelloVersion > VersionTLS12 then VersionTLS12 else clientHelloVersion)
      in \<lparr> clientHelloMsg.vers = clientHelloVersion,
           compressionMethods = [compressionNone],
           random = replicate 32 0,
           clientHelloMsg.ocspStapling = True,
           serverName = ServerName cfg,
           supportedCurves = curvePreferences cfg,
           supportedPoints = [pointFormatUncompressed],
           secureRenegotiationSupported = True,
           clientHelloMsg.cipherSuites = Config.cipherSuites cfg,
           supportedSignatureAlgorithms = supportedSignatureAlgorithms \<rparr>)"

text \<open>
  Lines 70-93. \<open>msg\<close> is SayHello's own variable \<^verbatim>\<open>msg\<close>: the last message that
  SayHello itself read (the Certificate, or the CertificateStatus when one was read);
  \<^verbatim>\<open>exchangeKeys\<close> reads into a variable of its own. \<open>ret\<close> holds the named results
  assigned so far. \<^verbatim>\<open>skx.raw[0]\<close> on an empty slice is an index out of range, which
  panics; the two reads of \<^verbatim>\<open>skx.key\<close> at lines 85-88 are guarded by line 81.
\<close>

definition keyExchangeStep ::
  "pkg \<Rightarrow> Conn \<Rightarrow> serverHelloMsg \<Rightarrow> handshakeMsg \<Rightarrow> ProbeReturn \<Rightarrow> Conn \<times> outcome" where
  "keyExchangeStep p c serverHello msg ret =
     (if EllipticCurve (lookupCipherSuite p (cipherSuite serverHello)) then
        (let (c, r) = exchangeKeys c
         in case r of
              Inl e \<Rightarrow> (c, Returned (ret\<lparr>err := Some e\<rparr>))
            | Inr skx \<Rightarrow>
                if raw skx = [] then (c, Panicked ''index out of range'')
                else if raw skx ! 0 \<noteq> typeServerKeyExchange then
                  (c, Returned (ret\<lparr>err :=
                     Some (unexpectedMessageError (Msg (ServerKeyExchange skx)) (Msg msg))\<rparr>))
                else if length (key skx) < 4 then
                  (c, Returned (ret\<lparr>err :=
                     Some (unexpectedMessageError (Msg (ServerKeyExchange skx)) (Msg msg))\<rparr>))
                else
                  (let ret = ret\<lparr>curveType := ucast (key skx ! 0)\<rparr>;
                       ret = (if curveType ret = 3
                              then ret\<lparr>curveID :=
                                     push_bit 8 (ucast (key skx ! 1)) OR ucast (key skx ! 2)\<rparr>
                              else ret)
                   in (c, Returned (ret\<lparr>cipherID := cipherSuite serverHello,
                                         version := serverHelloMsg.vers serverHello\<rparr>))))
      else
        (c, Returned (ret\<lparr>cipherID := cipherSuite serverHello,
                          version := serverHelloMsg.vers serverHello\<rparr>)))"

text \<open>Lines 58-68, followed by the key-exchange step.\<close>

definition certificateStatusStep ::
  "pkg \<Rightarrow> Conn \<Rightarrow> serverHelloMsg \<Rightarrow> handshakeMsg \<Rightarrow> ProbeReturn \<Rightarrow> Conn \<times> outcome" where
  "certificateStatusStep p c serverHello msg ret =
     (if serverHelloMsg.ocspStapling serverHello then
        (let (c, r) = readHandshake c
         in case r of
              Inl e \<Rightarrow> (c, Returned (ret\<lparr>err := Some e\<rparr>))
            | Inr msg \<Rightarrow>
                (case msg of
                   CertificateStatus certStatusMsg \<Rightarrow> keyExchangeStep p c serverHello msg ret
                 | _ \<Rightarrow>
                     (c, Returned (ret\<lparr>err :=
                        Some (unexpectedMessageError (NilPtr T_certificateStatusMsg) (Msg msg))\<rparr>))))
      else keyExchangeStep p c serverHello msg ret)"

text \<open>
  Lines 5-57. The results are named, so every bare \<^verbatim>\<open>return\<close> hands back whatever has
  been assigned by then; \<^verbatim>\<open>certs\<close> is assigned at line 56, \<^verbatim>\<open>cipherID\<close> and
  \<^verbatim>\<open>version\<close> at line 91.
\<close>

definition SayHello :: "pkg \<Rightarrow> Conn \<Rightarrow> SignatureAndHash list \<Rightarrow> Conn \<times> outcome" where
  "SayHello p c newSigAls =
     (let ret = zeroReturn;
          supportedVersions = Config.supportedVersions (config c)
      in if length supportedVersions = 0 then
           (c, Returned (ret\<lparr>err := Some (unexpectedMessageError (Versions supportedVersions)
              (Text ''tls: no supported versions satisfy MinVersion and MaxVersion''))\<rparr>))
         else
           (let hello = clientHello p (config c) newSigAls (supportedVersions ! 0);
                (c, r) = sayHello p c hello
            in case r of
                 Inl e \<Rightarrow> (c, Returned (ret\<lparr>err := Some e\<rparr>))
               | Inr serverHello \<Rightarrow>
                   (let (c, r) = readHandshake c
                    in case r of
                         Inl e \<Rightarrow> (c, Returned (ret\<lparr>err := Some e\<rparr>))
                       | Inr msg \<Rightarrow>
                           (case msg of
                              Certificate certMsg \<Rightarrow>
                                if length (certificates certMsg) = 0 then
                                  (c, Returned (ret\<lparr>err :=
                                     Some (unexpectedMessageError (Msg (Certificate certMsg)) (Msg msg))\<rparr>))
                                else
                                  certificateStatusStep p c serverHello msg
                                    (ret\<lparr>certs := certificates certMsg\<rparr>)
                            | _ \<Rightarrow>
                                (c, Returned (ret\<lparr>err :=
                                   Some (unexpectedMessageError (NilPtr T_certificateMsg) (Msg msg))\<rparr>))))))"

subsection \<open>A concrete environment, peer messages and connections\<close>

text \<open>
  Concrete values on which the theorems below are exercised. \<open>exampleMarshal\<close> writes
  the legacy version (big-endian) followed by the random of a ClientHello, which is how
  the body of the message starts on the wire; the table knows one elliptic-curve suite
  (0xC02F) and one suite without elliptic curves (0x002F).
\<close>

definition exampleMarshal :: "clientHelloMsg \<Rightarrow> uint8 list" where
  "exampleMarshal h =
     [ucast (drop_bit 8 (clientHelloMsg.vers h)), ucast (clientHelloMsg.vers h)] @ random h"

definition examplePkg :: pkg where
  "examplePkg =
     \<lparr> CFCipherSuites =
         [0xC02F \<mapsto> \<lparr>EllipticCurve = True\<rparr>, 0x002F \<mapsto> \<lparr>EllipticCurve = False\<rparr>],
       marshal = exampleMarshal,
       internal = (\<lambda>sa. push_bit 8 (ucast (Hash sa)) OR ucast (Signature sa)) \<rparr>"

definition exampleConfig :: Config where
  "exampleConfig =
     \<lparr> supportedVersions = [0x0304, 0x0303], ServerName = ''example.com'',
       curvePreferences = [23], Config.cipherSuites = [0xC02F, 0x002F] \<rparr>"

definition legacyConfig :: Config where
  "legacyConfig = exampleConfig\<lparr>supportedVersions := [0x0301]\<rparr>"

definition noVersions :: Config where
  "noVersions = exampleConfig\<lparr>supportedVersions := []\<rparr>"

definition freshConn ::
  "Config \<Rightarrow> (transportFault + handshakeMsg) list \<Rightarrow> transportFault option \<Rightarrow> Conn" where
  "freshConn cfg peer wfault = \<lparr> config = cfg, incoming = peer, writeFault = wfault, trace = [] \<rparr>"

definition helloEC :: serverHelloMsg where
  "helloEC =
     \<lparr>serverHelloMsg.vers = 0x0303, cipherSuite = 0xC02F, serverHelloMsg.ocspStapling = False\<rparr>"

definition helloRSA :: serverHelloMsg where
  "helloRSA =
     \<lparr>serverHelloMsg.vers = 0x0303, cipherSuite = 0x002F, serverHelloMsg.ocspStapling = False\<rparr>"

definition helloStapled :: serverHelloMsg where
  "helloStapled =
     \<lparr>serverHelloMsg.vers = 0x0303, cipherSuite = 0x002F, serverHelloMsg.ocspStapling = True\<rparr>"

definition helloUnknown :: serverHelloMsg where
  "helloUnknown =
     \<lparr>serverHelloMsg.vers = 0x0303, cipherSuite = 0x1301, serverHelloMsg.ocspStapling = True\<rparr>"

definition leafCert :: "uint8 list" where
  "leafCert = [0x30, 0x82, 0x01, 0x0A]"

definition oneCert :: certificateMsg where
  "oneCert = \<lparr>certificates = [leafCert]\<rparr>"

definition namedCurveKey :: serverKeyExchangeMsg where
  "namedCurveKey = \<lparr>raw = [12, 0, 0, 4, 3, 0, 0x17, 0x41], key = [3, 0, 0x17, 0x41]\<rparr>"

definition explicitPrimeKey :: serverKeyExchangeMsg where
  "explicitPrimeKey = \<lparr>raw = [12, 0, 0, 4, 1, 0, 0x17, 0x41], key = [1, 0, 0x17, 0x41]\<rparr>"

definition shortKey :: serverKeyExchangeMsg where
  "shortKey = \<lparr>raw = [12, 0, 0, 2, 3, 0], key = [3, 0]\<rparr>"

section \<open>Properties\<close>

subsection \<open>Auxiliary facts\<close>

lemmas step_defs =
  SayHello_def sayHello_def readHandshake_def writeRecord_def exchangeKeys_def
  certificateStatusStep_def keyExchangeStep_def unexpectedMessageError_def zeroReturn_def

lemmas all_splits = if_splits list.splits sum.splits handshakeMsg.splits prod.splits

lemmas example_defs =
  examplePkg_def exampleConfig_def legacyConfig_def noVersions_def freshConn_def
  exampleMarshal_def helloEC_def helloRSA_def helloStapled_def helloUnknown_def oneCert_def
  namedCurveKey_def explicitPrimeKey_def shortKey_def clientHello_def
  lookupCipherSuite_def VersionTLS12_def recordTypeHandshake_def typeServerKeyExchange_def
  compressionNone_def pointFormatUncompressed_def

text \<open>
  Every probe that has a candidate version starts its I/O with the write of the
  ClientHello built from the first candidate; whatever follows is a read.
\<close>

lemma SayHello_trace:
  assumes "supportedVersions (config c) \<noteq> []" and "SayHello p c newSigAls = (c', out)"
  shows "\<exists>evs. trace c' = trace c @
            Wrote recordTypeHandshake
              (marshal p (clientHello p (config c) newSigAls (supportedVersions (config c) ! 0)))
              (writeFault c) # evs \<and>
          (\<forall>e \<in> set evs. \<exists>r. e = ReadAttempt r)"
  using assms
  by (auto simp add: step_defs Let_def split: all_splits)

lemma clientHello_vers:
  "clientHelloMsg.vers (clientHello p cfg newSigAls v0) =
     (if v0 \<le> VersionTLS12 then v0 else VersionTLS12)"
  by (auto simp add: clientHello_def Let_def)


lemma unat_ucast_8_16: "unat (ucast (k :: uint8) :: uint16) = unat k"
proof -
  have "unat k < 2 ^ 8" using unsigned_less [of k] by simp
  then have "unat k < 2 ^ 16" by simp
  then show ?thesis by (simp add: unsigned_ucast_eq take_bit_nat_eq_self)
qed

lemma ucast_eq_3: "(ucast (k :: uint8) :: uint16) = 3 \<longleftrightarrow> k = 3"
  by (simp add: word_unat_eq_iff unat_ucast_8_16)

text \<open>Shifting the first byte up and or-ing the second in reads them big-endian.\<close>

lemma big_endian_16:
  "unat (push_bit 8 (ucast (a :: uint8)) OR ucast (b :: uint8) :: uint16) = 256 * unat a + unat b"
proof -
  have a: "unat a < 2 ^ 8" using unsigned_less [of a] by simp
  have b: "unat b < 2 ^ 8" using unsigned_less [of b] by simp
  have "(push_bit 8 (ucast a) OR ucast b :: uint16) = word_cat a b"
    by (simp add: word_cat_eq_push_bit_or)
  also have "\<dots> = push_bit 8 (ucast a) + ucast b"
    by (simp add: word_cat_eq)
  finally have "unat (push_bit 8 (ucast a) OR ucast b :: uint16) =
      unat (push_bit 8 (ucast a) + ucast b :: uint16)"
    by simp
  also have "\<dots> = (256 * unat a + unat b) mod 2 ^ 16"
    by (simp add: unat_word_ariths push_bit_eq_mult unat_ucast_8_16 mod_simps mult.commute)
  also have "\<dots> = 256 * unat a + unat b"
    using a b by simp
  finally show ?thesis .
qed

subsection \<open>No candidate version\<close>



subsection \<open>The legacy version of the ClientHello\<close>

text \<open>
  C3: when there is at least one candidate version, the first I/O of the probe is the
  write of the ClientHello built at lines 26-37, and everything after it is a read. The
  legacy version of that ClientHello never exceeds \<open>VersionTLS12\<close>: it is the
  most-preferred candidate when that is at most the ceiling, and the ceiling otherwise.
\<close>

theorem SayHello_legacy_version_capped:
  assumes "supportedVersions (config c) \<noteq> []" and "SayHello p c newSigAls = (c', out)"
  shows "(\<exists>evs. trace c' = trace c @
            Wrote recordTypeHandshake
              (marshal p (clientHello p (config c) newSigAls (supportedVersions (config c) ! 0)))
              (writeFault c) # evs \<and>
            (\<forall>e \<in> set evs. \<exists>r. e = ReadAttempt r)) \<and>
         clientHelloMsg.vers (clientHello p (config c) newSigAls (supportedVersions (config c) ! 0))
           \<le> VersionTLS12 \<and>
         clientHelloMsg.vers (clientHello p (config c) newSigAls (supportedVersions (config c) ! 0)) =
           (if supportedVersions (config c) ! 0 \<le> VersionTLS12
            then supportedVersions (config c) ! 0 else VersionTLS12)"
  using SayHello_trace [OF assms] by (simp add: clientHello_vers)

text \<open>
  The candidates TLS 1.3, TLS 1.2 give the legacy version 0x0303; the connection's log
  shows the record that went out.
\<close>

theorem SayHello_legacy_version_capped_witness:
  "supportedVersions (config (freshConn exampleConfig [] None)) \<noteq> [] \<and>
   supportedVersions (config (freshConn exampleConfig [] None)) ! 0 = 0x0304 \<and>
   clientHelloMsg.vers (clientHello examplePkg exampleConfig [] 0x0304) = 0x0303 \<and>
   clientHelloMsg.vers (clientHello examplePkg exampleConfig [] 0x0304) \<le> VersionTLS12 \<and>
   fst (SayHello examplePkg (freshConn exampleConfig [] None) []) =
     \<lparr>config = exampleConfig, incoming = [], writeFault = None,
      trace = [Wrote 22 (3 # 3 # replicate 32 0) None, ReadAttempt (Inl EOF)]\<rparr>"
proof -
  let ?c = "freshConn exampleConfig [] None"
  have h: "supportedVersions (config ?c) \<noteq> []"
    by (simp add: example_defs)
  have e: "SayHello examplePkg ?c [] =
      (\<lparr>config = exampleConfig, incoming = [], writeFault = None,
        trace = [Wrote 22 (3 # 3 # replicate 32 0) None, ReadAttempt (Inl EOF)]\<rparr>,
       Returned (zeroReturn\<lparr>err := Some (TransportError EOF)\<rparr>))"
    by (simp add: step_defs example_defs Let_def)
  show ?thesis
    using h e SayHello_legacy_version_capped [OF h e]
    by (simp add: exampleConfig_def freshConn_def VersionTLS12_def)
qed

subsection \<open>What accompanies an error\<close>

text \<open>
  The claim C1 that every result is zero on every error does not hold: the named result
  \<^verbatim>\<open>certs\<close> is assigned at line 56, and the bare returns of lines 61, 66, 75, 79
  and 83 hand it back together with the error. Here the ServerHello acknowledges OCSP
  stapling and a ServerHelloDone arrives where the CertificateStatus is due.
\<close>

theorem SayHello_error_keeps_certs:
  "SayHello examplePkg
     (freshConn exampleConfig
        [Inr (ServerHello helloStapled), Inr (Certificate oneCert), Inr (OtherHandshake 14 [])] None) [] =
   (\<lparr>config = exampleConfig, incoming = [], writeFault = None,
     trace = [Wrote 22 (3 # 3 # replicate 32 0) None, ReadAttempt (Inr (ServerHello helloStapled)),
              ReadAttempt (Inr (Certificate oneCert)), ReadAttempt (Inr (OtherHandshake 14 []))]\<rparr>,
    Returned \<lparr>cipherID = 0, curveType = 0, curveID = 0, version = 0, certs = [leafCert],
      err = Some (UnexpectedMessageError (NilPtr T_certificateStatusMsg)
                    (Msg (OtherHandshake 14 [])))\<rparr>)"
  by (simp add: step_defs example_defs Let_def)

text \<open>
  C1, as the code has it: on every error return \<^verbatim>\<open>cipherID\<close>,
  \<^verbatim>\<open>curveType\<close>, \<^verbatim>\<open>curveID\<close> and \<^verbatim>\<open>version\<close> are zero. \<^verbatim>\<open>certs\<close> is
  zero when the error arises no later than the Certificate step (at most the write and two
  reads were performed); when it arises later (CertificateStatus read, ServerKeyExchange
  read or validation) \<^verbatim>\<open>certs\<close> is the non-empty certificate list of the Certificate
  message that was received.
\<close>

theorem SayHello_error_result_fields:
  assumes "SayHello p c newSigAls = (c', Returned r)" and "err r \<noteq> None"
  shows "cipherID r = 0 \<and> curveType r = 0 \<and> curveID r = 0 \<and> version r = 0 \<and>
     (length (trace c') \<le> length (trace c) + 3 \<longrightarrow> certs r = []) \<and>
     (length (trace c) + 3 < length (trace c') \<longrightarrow>
        (\<exists>sh cm rest. incoming c = Inr (ServerHello sh) # Inr (Certificate cm) # rest \<and>
            certs r = certificates cm \<and> certs r \<noteq> []))"
  using assms
  by (auto simp add: step_defs Let_def split: all_splits)

text \<open>
  An error at the ServerKeyExchange step (the read times out) after one certificate keeps
  the certificate; an error at the Certificate step (no entries) leaves \<^verbatim>\<open>certs\<close> zero.
\<close>

theorem SayHello_error_result_fields_witness:
  "SayHello examplePkg
     (freshConn exampleConfig
        [Inr (ServerHello helloEC), Inr (Certificate oneCert), Inl Timeout] None) [] =
   (\<lparr>config = exampleConfig, incoming = [], writeFault = None,
     trace = [Wrote 22 (3 # 3 # replicate 32 0) None, ReadAttempt (Inr (ServerHello helloEC)),
              ReadAttempt (Inr (Certificate oneCert)), ReadAttempt (Inl Timeout)]\<rparr>,
    Returned \<lparr>cipherID = 0, curveType = 0, curveID = 0, version = 0, certs = [leafCert],
      err = Some (TransportError Timeout)\<rparr>) \<and>
   (\<exists>sh cm rest.
      incoming (freshConn exampleConfig
        [Inr (ServerHello helloEC), Inr (Certificate oneCert), Inl Timeout] None) =
        Inr (ServerHello sh) # Inr (Certificate cm) # rest \<and>
      [leafCert] = certificates cm) \<and>
   SayHello examplePkg
     (freshConn exampleConfig
        [Inr (ServerHello helloEC), Inr (Certificate \<lparr>certificates = []\<rparr>)] None) [] =
   (\<lparr>config = exampleConfig, incoming = [], writeFault = None,
     trace = [Wrote 22 (3 # 3 # replicate 32 0) None, ReadAttempt (Inr (ServerHello helloEC)),
              ReadAttempt (Inr (Certificate \<lparr>certificates = []\<rparr>))]\<rparr>,
    Returned \<lparr>cipherID = 0, curveType = 0, curveID = 0, version = 0, certs = [],
      err = Some (UnexpectedMessageError (Msg (Certificate \<lparr>certificates = []\<rparr>))
                    (Msg (Certificate \<lparr>certificates = []\<rparr>)))\<rparr>)"
proof -
  let ?c = "freshConn exampleConfig
        [Inr (ServerHello helloEC), Inr (Certificate oneCert), Inl Timeout] None"
  let ?c' = "\<lparr>config = exampleConfig, incoming = [], writeFault = None,
     trace = [Wrote 22 (3 # 3 # replicate 32 0) None, ReadAttempt (Inr (ServerHello helloEC)),
              ReadAttempt (Inr (Certificate oneCert)), ReadAttempt (Inl Timeout)]\<rparr>"
  let ?r = "\<lparr>cipherID = 0, curveType = 0, curveID = 0, version = 0, certs = [leafCert],
      err = Some (TransportError Timeout)\<rparr>"
  let ?d = "freshConn exampleConfig
        [Inr (ServerHello helloEC), Inr (Certificate \<lparr>certificates = []\<rparr>)] None"
  let ?d' = "\<lparr>config = exampleConfig, incoming = [], writeFault = None,
     trace = [Wrote 22 (3 # 3 # replicate 32 0) None, ReadAttempt (Inr (ServerHello helloEC)),
              ReadAttempt (Inr (Certificate \<lparr>certificates = []\<rparr>))]\<rparr>"
  have e: "SayHello examplePkg ?c [] = (?c', Returned ?r)"
    by (simp add: step_defs example_defs Let_def)
  have n: "err ?r \<noteq> None" by simp
  obtain q where q: "SayHello examplePkg ?d [] = (?d', Returned q)"
    and qe: "err q = Some (UnexpectedMessageError (Msg (Certificate \<lparr>certificates = []\<rparr>))
                    (Msg (Certificate \<lparr>certificates = []\<rparr>)))"
    by (simp add: step_defs example_defs Let_def)
  have qn: "err q \<noteq> None" using qe by simp
  have l: "length (trace ?d') \<le> length (trace ?d) + 3" by (simp add: freshConn_def)
  have "q = \<lparr>cipherID = 0, curveType = 0, curveID = 0, version = 0, certs = [],
      err = Some (UnexpectedMessageError (Msg (Certificate \<lparr>certificates = []\<rparr>))
                    (Msg (Certificate \<lparr>certificates = []\<rparr>)))\<rparr>"
    using SayHello_error_result_fields [OF q qn] l qe by (cases q) simp
  then show ?thesis
    using e q SayHello_error_result_fields [OF e n] by (simp add: freshConn_def)
qed

subsection \<open>Transport failures\<close>

text \<open>
  A read that fails ends the probe: the fault is the last I/O event, and it is the error
  that SayHello returns.
\<close>

lemma SayHello_read_fault:
  assumes "SayHello p c newSigAls = (c', Returned r)"
    and "trace c' = trace c @ evs" and "ReadAttempt (Inl f) \<in> set evs"
  shows "err r = Some (TransportError f) \<and> last evs = ReadAttempt (Inl f)"
  using assms
  by (auto simp add: step_defs Let_def split: all_splits)

text \<open>
  C2 asks that a failed write of the ClientHello fails the probe. Line 98 calls
  \<^verbatim>\<open>writeRecord\<close> as a statement and drops its error, while every read is followed
  by a check of \<^verbatim>\<open>err\<close>. On a connection whose write fails and whose peer's
  messages are readable nonetheless, the probe goes on to read and returns success.
\<close>

theorem SayHello_write_fault_ignored:
  "SayHello examplePkg
     (freshConn exampleConfig [Inr (ServerHello helloRSA), Inr (Certificate oneCert)] (Some Closed)) [] =
   (\<lparr>config = exampleConfig, incoming = [], writeFault = Some Closed,
     trace = [Wrote 22 (3 # 3 # replicate 32 0) (Some Closed),
              ReadAttempt (Inr (ServerHello helloRSA)), ReadAttempt (Inr (Certificate oneCert))]\<rparr>,
    Returned \<lparr>cipherID = 0x002F, curveType = 0, curveID = 0, version = 0x0303,
      certs = [leafCert], err = None\<rparr>)"
  by (simp add: step_defs example_defs Let_def)

subsection \<open>Violations of the handshake grammar\<close>

text \<open>
  Where a type assertion fails (lines 53, 65, 105, 119) the error carries the message
  that was just read.
\<close>

lemma SayHello_type_assertion_got:
  assumes "SayHello p c newSigAls = (c', Returned r)"
    and "err r = Some (UnexpectedMessageError (NilPtr t) g)"
  shows "\<exists>m. g = Msg m \<and> last (trace c') = ReadAttempt (Inr m)"
  using assms
  by (auto simp add: step_defs Let_def split: all_splits)

text \<open>
  C4 asks that every grammar violation carries the actual message. For key-exchange data
  shorter than 4 bytes, line 82 passes SayHello's variable \<^verbatim>\<open>msg\<close>, which still
  holds the message read before \<^verbatim>\<open>exchangeKeys\<close> was called: the error names the
  Certificate message (or the CertificateStatus), not the ServerKeyExchange that was
  received.
\<close>

theorem SayHello_short_key_error_got:
  "snd (SayHello examplePkg
     (freshConn exampleConfig
        [Inr (ServerHello helloEC), Inr (Certificate oneCert), Inr (ServerKeyExchange shortKey)]
        None) []) =
   Returned \<lparr>cipherID = 0, curveType = 0, curveID = 0, version = 0, certs = [leafCert],
      err = Some (UnexpectedMessageError (Msg (ServerKeyExchange shortKey))
                    (Msg (Certificate oneCert)))\<rparr>"
  by (simp add: step_defs example_defs Let_def)

subsection \<open>Decoding the curve\<close>

text \<open>
  C5: on the elliptic-curve branch, for a ServerKeyExchange whose raw encoding starts
  with its type byte and whose key-exchange data has at least 4 bytes, the probe succeeds,
  \<^verbatim>\<open>curveType\<close> is the first byte of the data, \<^verbatim>\<open>curveID\<close> is the big-endian
  16-bit value of the next two bytes when that first byte is 3, and zero for any other
  method.
\<close>

theorem SayHello_curve_decoding:
  assumes "supportedVersions (config c) \<noteq> []"
    and "EllipticCurve (lookupCipherSuite p (cipherSuite sh))"
    and "incoming c = Inr (ServerHello sh) # Inr (Certificate cm) #
           (if serverHelloMsg.ocspStapling sh then [Inr (CertificateStatus st)] else []) @
           Inr (ServerKeyExchange skx) # rest"
    and "certificates cm \<noteq> []"
    and "raw skx \<noteq> []" and "raw skx ! 0 = typeServerKeyExchange"
    and "4 \<le> length (key skx)"
  shows "\<exists>c' r. SayHello p c newSigAls = (c', Returned r) \<and> err r = None \<and>
           curveType r = ucast (key skx ! 0) \<and>
           (key skx ! 0 = 3 \<longrightarrow>
              curveID r = push_bit 8 (ucast (key skx ! 1)) OR ucast (key skx ! 2) \<and>
              unat (curveID r) = 256 * unat (key skx ! 1) + unat (key skx ! 2)) \<and>
           (key skx ! 0 \<noteq> 3 \<longrightarrow> curveID r = 0)"
  using assms
  by (auto simp add: step_defs Let_def ucast_eq_3 big_endian_16 split: all_splits)

text \<open>
  The data [0x03, 0x00, 0x17, ...] give the named curve 23; the data [0x01, ...]
  (explicit prime) give method 1 and no curve.
\<close>

theorem SayHello_curve_decoding_witness:
  "snd (SayHello examplePkg
     (freshConn exampleConfig
        [Inr (ServerHello helloEC), Inr (Certificate oneCert), Inr (ServerKeyExchange namedCurveKey)]
        None) []) =
     Returned \<lparr>cipherID = 0xC02F, curveType = 3, curveID = 23, version = 0x0303,
       certs = [leafCert], err = None\<rparr> \<and>
   snd (SayHello examplePkg
     (freshConn exampleConfig
        [Inr (ServerHello helloEC), Inr (Certificate oneCert), Inr (ServerKeyExchange explicitPrimeKey)]
        None) []) =
     Returned \<lparr>cipherID = 0xC02F, curveType = 1, curveID = 0, version = 0x0303,
       certs = [leafCert], err = None\<rparr>"
proof -
  let ?c = "\<lambda>k. freshConn exampleConfig
        [Inr (ServerHello helloEC), Inr (Certificate oneCert), Inr (ServerKeyExchange k)] None"
  have v: "supportedVersions (config (?c k)) \<noteq> []" for k
    by (simp add: example_defs)
  have ec: "EllipticCurve (lookupCipherSuite examplePkg (cipherSuite helloEC))"
    by (simp add: example_defs)
  have i: "incoming (?c k) = Inr (ServerHello helloEC) # Inr (Certificate oneCert) #
      (if serverHelloMsg.ocspStapling helloEC then [Inr (CertificateStatus st)] else []) @
      Inr (ServerKeyExchange k) # []" for k st
    by (simp add: example_defs)
  have cs: "certificates oneCert \<noteq> []" by (simp add: example_defs)
  have n1: "raw namedCurveKey \<noteq> []" "raw namedCurveKey ! 0 = typeServerKeyExchange"
    "4 \<le> length (key namedCurveKey)" by (simp_all add: example_defs)
  have n2: "raw explicitPrimeKey \<noteq> []" "raw explicitPrimeKey ! 0 = typeServerKeyExchange"
    "4 \<le> length (key explicitPrimeKey)" by (simp_all add: example_defs)
  have e1: "snd (SayHello examplePkg (?c namedCurveKey) []) =
      Returned \<lparr>cipherID = 0xC02F, curveType = 3, curveID = 23, version = 0x0303,
       certs = [leafCert], err = None\<rparr>"
    by (simp add: step_defs example_defs Let_def)
  have e2: "snd (SayHello examplePkg (?c explicitPrimeKey) []) =
      Returned \<lparr>cipherID = 0xC02F, curveType = 1, curveID = 0, version = 0x0303,
       certs = [leafCert], err = None\<rparr>"
    by (simp add: step_defs example_defs Let_def)
  note t1 = SayHello_curve_decoding [OF v ec i cs n1, of "[]"]
  note t2 = SayHello_curve_decoding [OF v ec i cs n2, of "[]"]
  show ?thesis using t1 t2 e1 e2 by simp
qed

subsection \<open>The order of CertificateStatus and ServerKeyExchange\<close>

text \<open>
  C6: when the ServerHello acknowledges OCSP stapling and what the third read delivers is
  not a CertificateStatus (another message, or a fault), SayHello returns an error at that
  step: the I/O performed is the write and exactly three reads, and whatever the peer sent
  next is still unread.
\<close>

theorem SayHello_stapling_order:
  assumes "supportedVersions (config c) \<noteq> []"
    and "incoming c = Inr (ServerHello sh) # Inr (Certificate cm) # x # rest"
    and "serverHelloMsg.ocspStapling sh" and "certificates cm \<noteq> []"
    and "\<forall>st. x \<noteq> Inr (CertificateStatus st)"
  shows "SayHello p c newSigAls =
     (c\<lparr>incoming := rest,
        trace := trace c @
          [Wrote recordTypeHandshake
             (marshal p (clientHello p (config c) newSigAls (supportedVersions (config c) ! 0)))
             (writeFault c),
           ReadAttempt (Inr (ServerHello sh)), ReadAttempt (Inr (Certificate cm)), ReadAttempt x]\<rparr>,
      Returned \<lparr>cipherID = 0, curveType = 0, curveID = 0, version = 0, certs = certificates cm,
        err = Some (case x of Inl f \<Rightarrow> TransportError f
                     | Inr m \<Rightarrow> UnexpectedMessageError (NilPtr T_certificateStatusMsg) (Msg m))\<rparr>)"
  using assms
  by (auto simp add: step_defs Let_def split: all_splits)

text \<open>
  A peer that skips the CertificateStatus and sends its ServerKeyExchange at once: the
  probe stops there and the message after it stays unread.
\<close>

theorem SayHello_stapling_order_witness:
  "SayHello examplePkg
     (freshConn exampleConfig
        [Inr (ServerHello (helloEC\<lparr>serverHelloMsg.ocspStapling := True\<rparr>)), Inr (Certificate oneCert),
         Inr (ServerKeyExchange namedCurveKey), Inr (OtherHandshake 14 [])] None) [] =
   (\<lparr>config = exampleConfig, incoming = [Inr (OtherHandshake 14 [])], writeFault = None,
     trace = [Wrote 22 (3 # 3 # replicate 32 0) None,
              ReadAttempt (Inr (ServerHello (helloEC\<lparr>serverHelloMsg.ocspStapling := True\<rparr>))),
              ReadAttempt (Inr (Certificate oneCert)),
              ReadAttempt (Inr (ServerKeyExchange namedCurveKey))]\<rparr>,
    Returned \<lparr>cipherID = 0, curveType = 0, curveID = 0, version = 0, certs = [leafCert],
      err = Some (UnexpectedMessageError (NilPtr T_certificateStatusMsg)
                    (Msg (ServerKeyExchange namedCurveKey)))\<rparr>)"
proof -
  let ?sh = "helloEC\<lparr>serverHelloMsg.ocspStapling := True\<rparr>"
  let ?c = "freshConn exampleConfig
        [Inr (ServerHello ?sh), Inr (Certificate oneCert),
         Inr (ServerKeyExchange namedCurveKey), Inr (OtherHandshake 14 [])] None"
  have v: "supportedVersions (config ?c) \<noteq> []" by (simp add: example_defs)
  have i: "incoming ?c = Inr (ServerHello ?sh) # Inr (Certificate oneCert) #
      Inr (ServerKeyExchange namedCurveKey) # [Inr (OtherHandshake 14 [])]"
    by (simp add: example_defs)
  have o: "serverHelloMsg.ocspStapling ?sh" by simp
  have cs: "certificates oneCert \<noteq> []" by (simp add: example_defs)
  have x: "\<forall>st. (Inr (ServerKeyExchange namedCurveKey) :: transportFault + handshakeMsg)
      \<noteq> Inr (CertificateStatus st)" by simp
  show ?thesis
    using SayHello_stapling_order [OF v i o cs x, of examplePkg "[]"]
    by (simp add: example_defs)
qed

subsection \<open>Cipher suites without elliptic curves\<close>

text \<open>
  C8: when a probe succeeds and the negotiated suite is not an elliptic-curve suite of
  the table, \<^verbatim>\<open>curveType\<close> and \<^verbatim>\<open>curveID\<close> are zero whatever the peer sent
  afterwards, \<^verbatim>\<open>cipherID\<close> and \<^verbatim>\<open>version\<close> are those of the ServerHello, and
  only the Certificate (and the CertificateStatus, when stapling was acknowledged) has
  been read after the ServerHello.
\<close>

theorem SayHello_non_ec_fields:
  assumes "SayHello p c newSigAls = (c', Returned r)" and "err r = None"
    and "incoming c = Inr (ServerHello sh) # rest"
    and "\<not> EllipticCurve (lookupCipherSuite p (cipherSuite sh))"
  shows "curveType r = 0 \<and> curveID r = 0 \<and> cipherID r = cipherSuite sh \<and>
         version r = serverHelloMsg.vers sh \<and>
         incoming c' = drop (if serverHelloMsg.ocspStapling sh then 2 else 1) rest"
  using assms
  by (auto simp add: step_defs Let_def split: all_splits)

text \<open>
  A ServerKeyExchange with a named curve that follows the Certificate of a suite without
  elliptic curves is not read.
\<close>

theorem SayHello_non_ec_fields_witness:
  "SayHello examplePkg
     (freshConn exampleConfig
        [Inr (ServerHello helloRSA), Inr (Certificate oneCert), Inr (ServerKeyExchange namedCurveKey)]
        None) [] =
   (\<lparr>config = exampleConfig, incoming = [Inr (ServerKeyExchange namedCurveKey)], writeFault = None,
     trace = [Wrote 22 (3 # 3 # replicate 32 0) None, ReadAttempt (Inr (ServerHello helloRSA)),
              ReadAttempt (Inr (Certificate oneCert))]\<rparr>,
    Returned \<lparr>cipherID = 0x002F, curveType = 0, curveID = 0, version = 0x0303,
      certs = [leafCert], err = None\<rparr>) \<and>
   \<not> EllipticCurve (lookupCipherSuite examplePkg (cipherSuite helloRSA))"
proof -
  let ?c = "freshConn exampleConfig
        [Inr (ServerHello helloRSA), Inr (Certificate oneCert), Inr (ServerKeyExchange namedCurveKey)]
        None"
  let ?c' = "\<lparr>config = exampleConfig, incoming = [Inr (ServerKeyExchange namedCurveKey)],
     writeFault = None,
     trace = [Wrote 22 (3 # 3 # replicate 32 0) None, ReadAttempt (Inr (ServerHello helloRSA)),
              ReadAttempt (Inr (Certificate oneCert))]\<rparr>"
  let ?r = "\<lparr>cipherID = 0x002F, curveType = 0, curveID = 0, version = 0x0303,
      certs = [leafCert], err = None\<rparr>"
  have e: "SayHello examplePkg ?c [] = (?c', Returned ?r)"
    by (simp add: step_defs example_defs Let_def)
  have n: "err ?r = None" by simp
  have i: "incoming ?c = Inr (ServerHello helloRSA) #
      [Inr (Certificate oneCert), Inr (ServerKeyExchange namedCurveKey)]"
    by (simp add: example_defs)
  have ne: "\<not> EllipticCurve (lookupCipherSuite examplePkg (cipherSuite helloRSA))"
    by (simp add: example_defs)
  show ?thesis
    using e ne SayHello_non_ec_fields [OF e n i ne] by simp
qed

text \<open>
  C10: a negotiated suite that the table does not know is looked up as the zero
  \<^verbatim>\<open>CipherSuite\<close>, whose \<^verbatim>\<open>EllipticCurve\<close> is false: the probe reads no
  ServerKeyExchange and completes without error, with \<^verbatim>\<open>curveType\<close> and
  \<^verbatim>\<open>curveID\<close> zero.
\<close>

theorem SayHello_unknown_suite:
  assumes "supportedVersions (config c) \<noteq> []"
    and "CFCipherSuites p (cipherSuite sh) = None"
    and "incoming c = Inr (ServerHello sh) # Inr (Certificate cm) #
           (if serverHelloMsg.ocspStapling sh then [Inr (CertificateStatus st)] else []) @ rest"
    and "certificates cm \<noteq> []"
  shows "lookupCipherSuite p (cipherSuite sh) = \<lparr>EllipticCurve = False\<rparr> \<and>
    SayHello p c newSigAls =
     (c\<lparr>incoming := rest,
        trace := trace c @
          [Wrote recordTypeHandshake
             (marshal p (clientHello p (config c) newSigAls (supportedVersions (config c) ! 0)))
             (writeFault c),
           ReadAttempt (Inr (ServerHello sh)), ReadAttempt (Inr (Certificate cm))] @
          (if serverHelloMsg.ocspStapling sh then [ReadAttempt (Inr (CertificateStatus st))] else [])\<rparr>,
      Returned \<lparr>cipherID = cipherSuite sh, curveType = 0, curveID = 0,
                version = serverHelloMsg.vers sh, certs = certificates cm, err = None\<rparr>)"
  using assms
  by (auto simp add: step_defs lookupCipherSuite_def Let_def split: all_splits)

text \<open>
  The suite 0x1301 is not in the example table.
\<close>

theorem SayHello_unknown_suite_witness:
  "CFCipherSuites examplePkg (cipherSuite helloUnknown) = None \<and>
   SayHello examplePkg
     (freshConn exampleConfig
        [Inr (ServerHello helloUnknown), Inr (Certificate oneCert),
         Inr (CertificateStatus \<lparr>response = [1]\<rparr>), Inr (ServerKeyExchange namedCurveKey)]
        None) [] =
   (\<lparr>config = exampleConfig, incoming = [Inr (ServerKeyExchange namedCurveKey)], writeFault = None,
     trace = [Wrote 22 (3 # 3 # replicate 32 0) None, ReadAttempt (Inr (ServerHello helloUnknown)),
              ReadAttempt (Inr (Certificate oneCert)),
              ReadAttempt (Inr (CertificateStatus \<lparr>response = [1]\<rparr>))]\<rparr>,
    Returned \<lparr>cipherID = 0x1301, curveType = 0, curveID = 0, version = 0x0303,
      certs = [leafCert], err = None\<rparr>)"
proof -
  let ?c = "freshConn exampleConfig
        [Inr (ServerHello helloUnknown), Inr (Certificate oneCert),
         Inr (CertificateStatus \<lparr>response = [1]\<rparr>), Inr (ServerKeyExchange namedCurveKey)]
        None"
  have v: "supportedVersions (config ?c) \<noteq> []" by (simp add: example_defs)
  have u: "CFCipherSuites examplePkg (cipherSuite helloUnknown) = None"
    by (simp add: example_defs)
  have i: "incoming ?c = Inr (ServerHello helloUnknown) # Inr (Certificate oneCert) #
      (if serverHelloMsg.ocspStapling helloUnknown
       then [Inr (CertificateStatus \<lparr>response = [1]\<rparr>)] else []) @
      [Inr (ServerKeyExchange namedCurveKey)]"
    by (simp add: example_defs)
  have cs: "certificates oneCert \<noteq> []" by (simp add: example_defs)
  show ?thesis
    using u SayHello_unknown_suite [OF v u i cs, of "[]"]
    by (simp add: example_defs)
qed

subsection \<open>The random of the ClientHello and determinism\<close>




end
